theory Spec2Isabelle
  imports Complex_Main
begin

section \<open>Values shared by the gateway and the controller\<close>

text \<open>
  Both processes call \<^verbatim>\<open>json.loads\<close> on the text they receive. The parser is library
  code, so it is a parameter of the model: a function from the received text to either the
  exception it raises or the parsed value. A parsed object is the list of its items, looked
  up with \<open>map_of\<close>; \<^verbatim>\<open>"k" in d\<close> is \<open>map_of d k \<noteq> None\<close>.
\<close>

datatype json =
    JNull
  | JBool bool
  | JNumber string
  | JStr string
  | JList "json list"
  | JDict "(string \<times> json) list"

datatype py_exception =
    JSONDecodeError
  | UnicodeDecodeError
  | TypeError
  | ValueError
  | OtherException

type_synonym loads = "string \<Rightarrow> py_exception + json"

text \<open>
  \<^verbatim>\<open>isinstance(schedule_data, dict) and "on_time" in schedule_data and "off_time" in schedule_data\<close>,
  the same test in \<^verbatim>\<open>on_message\<close> (subscriber, line 51) and \<^verbatim>\<open>handle_connection\<close>
  (backend, line 82).
\<close>

fun has_schedule_keys :: "json \<Rightarrow> bool" where
  "has_schedule_keys (JDict d) = (map_of d ''on_time'' \<noteq> None \<and> map_of d ''off_time'' \<noteq> None)"
| "has_schedule_keys _ = False"

fun get_item :: "json \<Rightarrow> string \<Rightarrow> json option" where
  "get_item (JDict d) k = map_of d k"
| "get_item _ k = None"

section \<open>\<^verbatim>\<open>datetime.strptime(value, "%H:%M")\<close>\<close>

text \<open>
  A Python \<^verbatim>\<open>str\<close> is held as the bytes of its UTF-8 encoding, so that ASCII text is
  written as it reads and two texts are equal exactly when their encodings are.
  \<open>utf8_head\<close> takes the first code point off a text.
\<close>

definition utf8_head :: "string \<Rightarrow> (nat \<times> string) option" where
  "utf8_head s =
     (case s of
        [] \<Rightarrow> None
      | c # r \<Rightarrow>
          (let b = (of_char c :: nat) in
           if b < 0x80 then Some (b, r)
           else if 0xC0 \<le> b \<and> b < 0xE0 then
             (case r of
                c1 # r1 \<Rightarrow> Some ((b - 0xC0) * 64 + (of_char c1 - 0x80), r1)
              | _ \<Rightarrow> None)
           else if 0xE0 \<le> b \<and> b < 0xF0 then
             (case r of
                c1 # c2 # r2 \<Rightarrow>
                  Some (((b - 0xE0) * 64 + (of_char c1 - 0x80)) * 64 + (of_char c2 - 0x80), r2)
              | _ \<Rightarrow> None)
           else if 0xF0 \<le> b \<and> b < 0xF8 then
             (case r of
                c1 # c2 # c3 # r3 \<Rightarrow>
                  Some ((((b - 0xF0) * 64 + (of_char c1 - 0x80)) * 64 + (of_char c2 - 0x80)) * 64
                         + (of_char c3 - 0x80), r3)
              | _ \<Rightarrow> None)
           else None))"

text \<open>
  The class \<^verbatim>\<open>\d\<close> of a \<^verbatim>\<open>str\<close> pattern is the decimal digits of the Unicode
  database (category Nd), and \<^verbatim>\<open>int\<close> reads each of them as its decimal value. They
  come in runs of ten, from the digit zero to the digit nine; \<open>decimal_zeros\<close> lists the
  code point of every digit zero (Unicode 14.0, 66 runs, the ASCII digits first).
\<close>

definition decimal_zeros :: "nat list" where
  "decimal_zeros =
     [0x30, 0x660, 0x6F0, 0x7C0, 0x966, 0x9E6, 0xA66, 0xAE6, 0xB66, 0xBE6, 0xC66, 0xCE6,
      0xD66, 0xDE6, 0xE50, 0xED0, 0xF20, 0x1040, 0x1090, 0x17E0, 0x1810, 0x1946, 0x19D0,
      0x1A80, 0x1A90, 0x1B50, 0x1BB0, 0x1C40, 0x1C50, 0xA620, 0xA8D0, 0xA900, 0xA9D0,
      0xA9F0, 0xAA50, 0xABF0, 0xFF10, 0x104A0, 0x10D30, 0x11066, 0x110F0, 0x11136,
      0x111D0, 0x112F0, 0x11450, 0x114D0, 0x11650, 0x116C0, 0x11730, 0x118E0, 0x11950,
      0x11C50, 0x11D50, 0x11DA0, 0x16A60, 0x16AC0, 0x16B50, 0x1D7CE, 0x1D7D8, 0x1D7E2,
      0x1D7EC, 0x1D7F6, 0x1E140, 0x1E2F0, 0x1E950, 0x1FBF0]"

definition decimal_value :: "nat \<Rightarrow> nat option" where
  "decimal_value cp =
     (case find (\<lambda>z. z \<le> cp \<and> cp < z + 10) decimal_zeros of
        None \<Rightarrow> None
      | Some z \<Rightarrow> Some (cp - z))"

text \<open>\<^verbatim>\<open>\d\<close> at the start of a text: the value of the digit and the text after it.\<close>

definition decimal_digit :: "string \<Rightarrow> (nat \<times> string) option" where
  "decimal_digit s =
     (case utf8_head s of
        None \<Rightarrow> None
      | Some (cp, r) \<Rightarrow> (case decimal_value cp of None \<Rightarrow> None | Some v \<Rightarrow> Some (v, r)))"

text \<open>The ASCII digits, as in the classes \<^verbatim>\<open>[0-3]\<close>, \<^verbatim>\<open>[0-1]\<close> and \<^verbatim>\<open>[0-5]\<close>.\<close>

definition is_ascii_digit :: "char \<Rightarrow> bool" where
  "is_ascii_digit c = (c \<in> set ''0123456789'')"

definition digit_val :: "char \<Rightarrow> nat" where
  "digit_val c = of_char c - of_char (CHR ''0'')"

text \<open>
  The library compiles the format to the regular expression
  \<^verbatim>\<open>(?P<H>2[0-3]|[0-1]\d|\d):(?P<M>[0-5]\d|\d)\<close>, matches it at the start of the text and
  raises \<^verbatim>\<open>ValueError\<close> when it does not match or when text remains after the match.
  \<open>H_alternatives\<close> and \<open>M_alternatives\<close> list, in the order of the expression, the
  alternatives that match at the start of a text, each with the number it reads and the
  text after it. The match takes the first hour alternative after which the colon and a
  minute follow, and the first minute alternative.
\<close>

definition H_alternatives :: "string \<Rightarrow> (nat \<times> string) list" where
  "H_alternatives s =
     (case s of
        a # b # rest \<Rightarrow> if a = CHR ''2'' \<and> b \<in> set ''0123'' then [(20 + digit_val b, rest)] else []
      | _ \<Rightarrow> []) @
     (case s of
        a # rest \<Rightarrow>
          if a \<in> set ''01'' then
            (case decimal_digit rest of None \<Rightarrow> [] | Some (v, r) \<Rightarrow> [(10 * digit_val a + v, r)])
          else []
      | _ \<Rightarrow> []) @
     (case decimal_digit s of None \<Rightarrow> [] | Some (v, r) \<Rightarrow> [(v, r)])"

definition M_alternatives :: "string \<Rightarrow> (nat \<times> string) list" where
  "M_alternatives s =
     (case s of
        a # rest \<Rightarrow>
          if a \<in> set ''012345'' then
            (case decimal_digit rest of None \<Rightarrow> [] | Some (v, r) \<Rightarrow> [(10 * digit_val a + v, r)])
          else []
      | _ \<Rightarrow> []) @
     (case decimal_digit s of None \<Rightarrow> [] | Some (v, r) \<Rightarrow> [(v, r)])"

text \<open>The colon and the minute after an hour alternative.\<close>

definition colon_minute :: "nat \<times> string \<Rightarrow> ((nat \<times> nat) \<times> string) option" where
  "colon_minute hr =
     (case snd hr of
        [] \<Rightarrow> None
      | c # r2 \<Rightarrow>
          if c = CHR '':'' then
            (case M_alternatives r2 of [] \<Rightarrow> None | (m, r3) # _ \<Rightarrow> Some ((fst hr, m), r3))
          else None)"

definition regex_match :: "string \<Rightarrow> ((nat \<times> nat) \<times> string) option" where
  "regex_match s =
     (case List.map_filter colon_minute (H_alternatives s) of [] \<Rightarrow> None | x # _ \<Rightarrow> Some x)"

text \<open>The result is the (hour, minute) of the parsed time, or the exception raised.\<close>

definition strptime_HM :: "string \<Rightarrow> py_exception + (nat \<times> nat)" where
  "strptime_HM s =
     (case regex_match s of
        None \<Rightarrow> Inl ValueError
      | Some (hm, rest) \<Rightarrow> if rest = [] then Inr hm else Inl ValueError)"

text \<open>
  In the controller the call is a parameter, like the parser: a function from the text to
  the parsed time or the exception raised. \<open>strptime_value\<close> applies it to a JSON value;
  anything but a string raises \<^verbatim>\<open>TypeError\<close> before the text is looked at.
\<close>

type_synonym strptime = "string \<Rightarrow> py_exception + (nat \<times> nat)"

fun strptime_value :: "strptime \<Rightarrow> json \<Rightarrow> py_exception + (nat \<times> nat)" where
  "strptime_value strp (JStr s) = strp s"
| "strptime_value strp _ = Inl TypeError"

text \<open>
  The format the specification asks for, in its words: a strict zero-padded 24-hour
  \<^verbatim>\<open>HH:MM\<close> string, two digits, a colon, two digits, hour below 24, minute below 60.
\<close>

definition spec_strict_HHMM :: "string \<Rightarrow> bool" where
  "spec_strict_HHMM s =
     (case s of
        [h1, h2, c, m1, m2] \<Rightarrow>
          is_ascii_digit h1 \<and> is_ascii_digit h2 \<and> c = CHR '':'' \<and>
          is_ascii_digit m1 \<and> is_ascii_digit m2 \<and>
          10 * digit_val h1 + digit_val h2 < 24 \<and> 10 * digit_val m1 + digit_val m2 < 60
      | _ \<Rightarrow> False)"

section \<open>The controller: \<^verbatim>\<open>subscriber/mqtt_subscriber.py\<close>\<close>

subsection \<open>Global state\<close>

datatype serial_port = Serial (is_open: bool)

record schedule =
  on_time :: "string option"
  off_time :: "string option"

record state =
  current_schedule :: schedule
  arduino :: "serial_port option"
  last_command_sent_minute :: "string option"
  last_known_state :: "string option"
  last_serial_connect_attempt :: real

definition SERIAL_RECONNECT_DELAY_SECONDS :: real where
  "SERIAL_RECONNECT_DELAY_SECONDS = 10"

text \<open>The module-level initial values (lines 26 to 30).\<close>

definition initial_globals :: state where
  "initial_globals =
     \<lparr>current_schedule = \<lparr>on_time = None, off_time = None\<rparr>,
      arduino = None,
      last_command_sent_minute = None,
      last_known_state = None,
      last_serial_connect_attempt = 0\<rparr>"

text \<open>\<^verbatim>\<open>arduino and arduino.is_open\<close>\<close>

definition connected :: "state \<Rightarrow> bool" where
  "connected s = (case arduino s of None \<Rightarrow> False | Some p \<Rightarrow> is_open p)"

subsection \<open>\<^verbatim>\<open>on_message\<close>\<close>

text \<open>
  The function declares \<^verbatim>\<open>global current_schedule, last_command_sent_minute\<close> only
  (line 45). Its assignment \<^verbatim>\<open>last_known_state = None\<close> on line 62 therefore binds a
  name local to the call, and the module-level \<open>last_known_state\<close> keeps its value.
  Both \<^verbatim>\<open>strptime\<close> calls come before the two stores into \<open>current_schedule\<close>; an
  exception of either leaves every global as it was (\<^verbatim>\<open>ValueError\<close> is caught on line 63,
  any other exception on line 70). The parameter \<open>json_loads\<close> stands for lines 47 and
  49, decoding the payload and parsing it; the parameter \<open>strp\<close> stands for
  \<^verbatim>\<open>datetime.strptime(_, "%H:%M")\<close> on lines 54 and 55.
\<close>

definition on_message :: "loads \<Rightarrow> strptime \<Rightarrow> string \<Rightarrow> state \<Rightarrow> state" where
  "on_message json_loads strp payload s =
     (case json_loads payload of
        Inl e \<Rightarrow> s
      | Inr schedule_data \<Rightarrow>
          if has_schedule_keys schedule_data then
            (case (get_item schedule_data ''on_time'', get_item schedule_data ''off_time'') of
               (Some on_v, Some off_v) \<Rightarrow>
                 (case strptime_value strp on_v of
                    Inl e \<Rightarrow> s
                  | Inr t1 \<Rightarrow>
                      (case strptime_value strp off_v of
                         Inl e \<Rightarrow> s
                       | Inr t2 \<Rightarrow>
                           (case (on_v, off_v) of
                              (JStr on_s, JStr off_s) \<Rightarrow>
                                s\<lparr>current_schedule := \<lparr>on_time = Some on_s, off_time = Some off_s\<rparr>,
                                  last_command_sent_minute := None\<rparr>
                            | _ \<Rightarrow> s)))
             | _ \<Rightarrow> s)
          else s)"

subsection \<open>Serial link\<close>

text \<open>
  What the controller does to the serial device, in order: closing a port, an attempt to
  open it (with its outcome), a write that returned, a write that raised.
\<close>

datatype event =
    SerialClose
  | SerialOpen bool
  | SerialWrite string
  | SerialWriteFailed string

text \<open>
  \<^verbatim>\<open>setup_serial\<close>: \<open>open_ok\<close> says whether \<^verbatim>\<open>serial.Serial(...)\<close> returns an open port.
  The function returns the new port or \<open>None\<close>; the caller stores it in \<open>arduino\<close>.
\<close>

definition setup_serial :: "bool \<Rightarrow> state \<Rightarrow> serial_port option \<times> state \<times> event list" where
  "setup_serial open_ok s =
     (let ev = (if connected s then [SerialClose] else []);
          s1 = s\<lparr>arduino := None, last_known_state := None\<rparr>
      in (if open_ok then Some (Serial True) else None, s1, ev @ [SerialOpen open_ok]))"

definition close_serial_safely :: "state \<Rightarrow> state \<times> event list" where
  "close_serial_safely s =
     (s\<lparr>arduino := None\<rparr>, if connected s then [SerialClose] else [])"

text \<open>
  \<^verbatim>\<open>send_to_arduino\<close>: \<open>write_ok\<close> says whether \<^verbatim>\<open>write\<close> and \<^verbatim>\<open>flush\<close> both return.
  Each of the three handlers closes the port and sets \<open>arduino\<close> to \<open>None\<close>.
\<close>

definition send_to_arduino :: "string \<Rightarrow> bool \<Rightarrow> state \<Rightarrow> state \<times> event list" where
  "send_to_arduino command write_ok s =
     (if \<not> connected s then (s, [])
      else if write_ok then (s\<lparr>last_known_state := Some command\<rparr>, [SerialWrite command])
      else (let (s1, ev) = close_serial_safely s
            in (s1\<lparr>arduino := None\<rparr>, SerialWriteFailed command # ev)))"

subsection \<open>The main loop\<close>

text \<open>
  What one iteration reads from outside: \<^verbatim>\<open>time.time()\<close>, the wall clock formatted
  \<^verbatim>\<open>%H:%M\<close>, and how the serial device answers if the iteration opens it or writes to it.
\<close>

record tick =
  now :: real
  now_str :: string
  open_ok :: bool
  write_ok :: bool

text \<open>Lines 193 to 207.\<close>

definition reconnect_step :: "tick \<Rightarrow> state \<Rightarrow> state \<times> event list" where
  "reconnect_step t s =
     (if \<not> connected s then
        if now t - last_serial_connect_attempt s > SERIAL_RECONNECT_DELAY_SECONDS then
          (let s1 = s\<lparr>last_serial_connect_attempt := now t\<rparr>;
               (r, s2, ev) = setup_serial (open_ok t) s1;
               s3 = s2\<lparr>arduino := r\<rparr>
           in (if r \<noteq> None then s3\<lparr>last_command_sent_minute := None\<rparr> else s3, ev))
        else (s, [])
      else (s, []))"

text \<open>
  Lines 213 to 221 and 225 to 233: the body of one branch, for the command \<open>cmd\<close>
  (\<open>''1''\<close> in the ON branch, \<open>''0''\<close> in the OFF branch).
\<close>

definition command_branch :: "string \<Rightarrow> tick \<Rightarrow> state \<Rightarrow> state \<times> event list" where
  "command_branch cmd t s =
     (if last_command_sent_minute s \<noteq> Some (now_str t) then
        if last_known_state s \<noteq> Some cmd then
          (let (s1, ev) = send_to_arduino cmd (write_ok t) s
           in (if arduino s1 \<noteq> None then s1\<lparr>last_command_sent_minute := Some (now_str t)\<rparr> else s1, ev))
        else (s\<lparr>last_command_sent_minute := Some (now_str t)\<rparr>, [])
      else (s, []))"

text \<open>Lines 210 to 233.\<close>

definition schedule_logic :: "tick \<Rightarrow> state \<Rightarrow> state \<times> event list" where
  "schedule_logic t s =
     (if connected s then
        if on_time (current_schedule s) = Some (now_str t) then command_branch ''1'' t s
        else if off_time (current_schedule s) = Some (now_str t) then command_branch ''0'' t s
        else (s, [])
      else (s, []))"

text \<open>One iteration of \<^verbatim>\<open>while True\<close> (lines 189 to 233).\<close>

definition loop_body :: "tick \<Rightarrow> state \<Rightarrow> state \<times> event list" where
  "loop_body t s =
     (let (s1, ev1) = reconnect_step t s;
          (s2, ev2) = schedule_logic t s1
      in (s2, ev1 @ ev2))"

text \<open>A finite run of the loop, with everything it did to the serial device.\<close>

fun run :: "tick list \<Rightarrow> state \<Rightarrow> state \<times> event list" where
  "run [] s = (s, [])"
| "run (t # ts) s =
     (let (s1, ev1) = loop_body t s;
          (s2, ev2) = run ts s1
      in (s2, ev1 @ ev2))"

text \<open>Lines 164 and 165: the first connection attempt, before the loop starts.\<close>

definition main_init :: "bool \<Rightarrow> real \<Rightarrow> state" where
  "main_init first_open_ok t0 =
     (let (r, s1, ev) = setup_serial first_open_ok initial_globals
      in s1\<lparr>arduino := r, last_serial_connect_attempt := t0\<rparr>)"

text \<open>
  What changes the globals once the loop has started: an iteration of the loop, on the
  main thread, or a bus message handled by \<^verbatim>\<open>on_message\<close>, on the bus client's thread.
  The two are taken as interleaved at whole iterations.
\<close>

datatype action = Tick tick | Message loads strptime string

fun exec :: "action list \<Rightarrow> state \<Rightarrow> state" where
  "exec [] s = s"
| "exec (Tick t # acts) s = exec acts (fst (loop_body t s))"
| "exec (Message json_loads strp payload # acts) s = exec acts (on_message json_loads strp payload s)"

text \<open>Projections of a trace.\<close>

fun is_write :: "event \<Rightarrow> bool" where
  "is_write (SerialWrite c) = True"
| "is_write _ = False"

fun is_write_attempt :: "event \<Rightarrow> bool" where
  "is_write_attempt (SerialWrite c) = True"
| "is_write_attempt (SerialWriteFailed c) = True"
| "is_write_attempt _ = False"

fun is_open_attempt :: "event \<Rightarrow> bool" where
  "is_open_attempt (SerialOpen b) = True"
| "is_open_attempt _ = False"

text \<open>
  The loop has nothing left to do in minute \<open>m\<close>: the link is up and the minute is
  recorded as handled.
\<close>

definition settled :: "string \<Rightarrow> state \<Rightarrow> bool" where
  "settled m s = (connected s \<and> last_command_sent_minute s = Some m)"

text \<open>
  The two schedule fields are set together, and while they are unset the debounce state is
  still the initial one.
\<close>

definition unset_inv :: "state \<Rightarrow> bool" where
  "unset_inv s =
     ((on_time (current_schedule s) = None) = (off_time (current_schedule s) = None) \<and>
      (on_time (current_schedule s) \<noteq> None \<or>
         (last_command_sent_minute s = None \<and> last_known_state s = None)))"

subsection \<open>Concrete inputs\<close>

definition armed_state :: state where
  "armed_state =
     \<lparr>current_schedule = \<lparr>on_time = Some ''07:00'', off_time = Some ''19:00''\<rparr>,
      arduino = Some (Serial True),
      last_command_sent_minute = None,
      last_known_state = None,
      last_serial_connect_attempt = 995\<rparr>"

definition relay_on_state :: state where
  "relay_on_state =
     \<lparr>current_schedule = \<lparr>on_time = Some ''06:30'', off_time = Some ''22:00''\<rparr>,
      arduino = Some (Serial True),
      last_command_sent_minute = Some ''06:30'',
      last_known_state = Some ''1'',
      last_serial_connect_attempt = 995\<rparr>"

definition tick_at :: "real \<Rightarrow> string \<Rightarrow> bool \<Rightarrow> bool \<Rightarrow> tick" where
  "tick_at n m o_ok w_ok = \<lparr>now = n, now_str = m, open_ok = o_ok, write_ok = w_ok\<rparr>"

definition payload_0700_1900 :: string where
  \<open>payload_0700_1900 = ''{"on_time": "07:00", "off_time": "19:00"}''\<close>

definition payload_9_5 :: string where
  \<open>payload_9_5 = ''{"on_time": "9:5", "off_time": "19:00"}''\<close>

definition payload_25_99 :: string where
  \<open>payload_25_99 = ''{"on_time": "25:99", "off_time": "19:00"}''\<close>

definition payload_0800_0700 :: string where
  \<open>payload_0800_0700 = ''{"on_time": "08:00", "off_time": "07:00"}''\<close>

definition payload_no_off :: string where
  \<open>payload_no_off = ''{"on_time": "07:00"}''\<close>

text \<open>A binary frame that is not UTF-8, UTF-16 or UTF-32 text: the single byte FF.\<close>

definition binary_frame :: string where
  "binary_frame = [CHR 0xFF]"

text \<open>
  What \<^verbatim>\<open>json.loads\<close> does on the texts above: it returns the parsed object, and on the
  binary frame it raises \<^verbatim>\<open>UnicodeDecodeError\<close>. Any other text is taken as one it
  rejects with \<^verbatim>\<open>JSONDecodeError\<close>. Used at concrete inputs only.
\<close>

definition sample_loads :: loads where
  "sample_loads p =
     (if p = payload_0700_1900 then
        Inr (JDict [(''on_time'', JStr ''07:00''), (''off_time'', JStr ''19:00'')])
      else if p = payload_9_5 then
        Inr (JDict [(''on_time'', JStr ''9:5''), (''off_time'', JStr ''19:00'')])
      else if p = payload_25_99 then
        Inr (JDict [(''on_time'', JStr ''25:99''), (''off_time'', JStr ''19:00'')])
      else if p = payload_0800_0700 then
        Inr (JDict [(''on_time'', JStr ''08:00''), (''off_time'', JStr ''07:00'')])
      else if p = payload_no_off then
        Inr (JDict [(''on_time'', JStr ''07:00'')])
      else if p = binary_frame then Inl UnicodeDecodeError
      else Inl JSONDecodeError)"

section \<open>The gateway: \<^verbatim>\<open>backend/websocket_server.py\<close>\<close>

definition MQTT_TOPIC :: string where
  "MQTT_TOPIC = ''relay/schedule''"

datatype mqtt_client = Client

record gateway =
  mqtt_client :: "mqtt_client option"
  mqtt_connected :: bool

text \<open>The dictionary handed to \<^verbatim>\<open>json.dumps\<close> for the reply.\<close>

record response =
  status :: string
  message :: string

text \<open>
  What the gateway does, in order: a call of \<^verbatim>\<open>publish_to_mqtt\<close> with its payload
  argument, a call of the bus client's \<^verbatim>\<open>publish\<close> with topic and payload, a reply
  sent on the WebSocket.
\<close>

datatype gw_event =
    CallPublishToMqtt string
  | ClientPublish string string
  | WsSend response

text \<open>
  How the bus client answers a publish: confirmed within the timeout, not confirmed,
  \<^verbatim>\<open>ValueError\<close> raised, another exception raised.
\<close>

datatype publish_outcome = Published | NotPublished | RaisedValueError | RaisedOther

text \<open>\<^verbatim>\<open>publish_to_mqtt\<close> (lines 42 to 65).\<close>

definition publish_to_mqtt ::
  "publish_outcome \<Rightarrow> mqtt_client option \<Rightarrow> string \<Rightarrow> gateway \<Rightarrow> bool \<times> gateway \<times> gw_event list" where
  "publish_to_mqtt outcome client message_payload g =
     (if client = None \<or> \<not> mqtt_connected g then (False, g, [CallPublishToMqtt message_payload])
      else
        (case outcome of
           Published \<Rightarrow> (True, g, [CallPublishToMqtt message_payload, ClientPublish MQTT_TOPIC message_payload])
         | NotPublished \<Rightarrow> (False, g, [CallPublishToMqtt message_payload, ClientPublish MQTT_TOPIC message_payload])
         | RaisedValueError \<Rightarrow>
             (False, g\<lparr>mqtt_connected := False\<rparr>,
              [CallPublishToMqtt message_payload, ClientPublish MQTT_TOPIC message_payload])
         | RaisedOther \<Rightarrow> (False, g, [CallPublishToMqtt message_payload, ClientPublish MQTT_TOPIC message_payload])))"

text \<open>
  The body of \<^verbatim>\<open>async for message in websocket\<close> in \<^verbatim>\<open>handle_connection\<close>
  (lines 76 to 106), for one message. Sending the reply is taken to succeed.
\<close>

definition handle_message :: "loads \<Rightarrow> publish_outcome \<Rightarrow> string \<Rightarrow> gateway \<Rightarrow> gateway \<times> gw_event list" where
  "handle_message json_loads outcome msg g =
     (case json_loads msg of
        Inr schedule_data \<Rightarrow>
          if has_schedule_keys schedule_data then
            (let (publish_successful, g1, ev) = publish_to_mqtt outcome (mqtt_client g) msg g;
                 r = (if publish_successful
                      then \<lparr>status = ''success'', message = ''Schedule received and published to MQTT.''\<rparr>
                      else \<lparr>status = ''error'',
                            message = ''Schedule received but failed to publish to MQTT.''\<rparr>)
             in (g1, ev @ [WsSend r]))
          else
            (g, [WsSend \<lparr>status = ''error'',
                         message = ''Invalid format. Expected JSON with 'on_time' and 'off_time' keys.''\<rparr>])
      | Inl JSONDecodeError \<Rightarrow> (g, [WsSend \<lparr>status = ''error'', message = ''Invalid JSON format.''\<rparr>])
      | Inl _ \<Rightarrow> (g, [WsSend \<lparr>status = ''error'', message = ''Internal server error.''\<rparr>]))"

text \<open>The two replies that report a malformed message.\<close>

definition invalid_format_reply :: "response \<Rightarrow> bool" where
  "invalid_format_reply r =
     (status r = ''error'' \<and>
      (message r = ''Invalid format. Expected JSON with 'on_time' and 'off_time' keys.'' \<or>
       message r = ''Invalid JSON format.''))"

fun is_publish :: "gw_event \<Rightarrow> bool" where
  "is_publish (WsSend r) = False"
| "is_publish _ = True"

definition gateway_up :: gateway where
  "gateway_up = \<lparr>mqtt_client = Some Client, mqtt_connected = True\<rparr>"

section \<open>Facts about the time format\<close>

lemma is_ascii_digit_cases:
  "is_ascii_digit c \<Longrightarrow> c = CHR ''0'' \<or> c = CHR ''1'' \<or> c = CHR ''2'' \<or> c = CHR ''3'' \<or> c = CHR ''4'' \<or>
     c = CHR ''5'' \<or> c = CHR ''6'' \<or> c = CHR ''7'' \<or> c = CHR ''8'' \<or> c = CHR ''9''"
  by (auto simp add: is_ascii_digit_def)

lemma digit_val_simps:
  "digit_val CHR ''0'' = 0" "digit_val CHR ''1'' = 1" "digit_val CHR ''2'' = 2" "digit_val CHR ''3'' = 3"
  "digit_val CHR ''4'' = 4" "digit_val CHR ''5'' = 5" "digit_val CHR ''6'' = 6" "digit_val CHR ''7'' = 7"
  "digit_val CHR ''8'' = 8" "digit_val CHR ''9'' = 9"
  by (simp_all add: digit_val_def)

lemma decimal_value_ascii: "48 \<le> cp \<Longrightarrow> cp < 58 \<Longrightarrow> decimal_value cp = Some (cp - 48)"
  by (simp add: decimal_value_def decimal_zeros_def)

text \<open>An ASCII digit at the start of a text is read by \<^verbatim>\<open>\d\<close> as its own value.\<close>

lemma decimal_digit_ascii:
  assumes "is_ascii_digit c"
  shows "decimal_digit (c # r) = Some (digit_val c, r)"
  using is_ascii_digit_cases [OF assms]
  by (elim disjE) (simp_all add: decimal_digit_def utf8_head_def decimal_value_ascii digit_val_def)

lemma decimal_digit_Nil: "decimal_digit [] = None"
  by (simp add: decimal_digit_def utf8_head_def)

lemma decimal_digit_colon: "decimal_digit (CHR '':'' # r) = None"
  by (simp add: decimal_digit_def utf8_head_def decimal_value_def decimal_zeros_def)

lemma H_alternatives_strict:
  assumes "is_ascii_digit a" and "is_ascii_digit b" and "10 * digit_val a + digit_val b < 24"
  shows "\<exists>xs. H_alternatives (a # b # rest) = (10 * digit_val a + digit_val b, rest) # xs"
  using is_ascii_digit_cases [OF assms(1)] is_ascii_digit_cases [OF assms(2)] assms(3)
    decimal_digit_ascii [OF assms(2), of rest]
  by (elim disjE) (simp_all add: H_alternatives_def digit_val_simps)

lemma M_alternatives_strict:
  assumes "is_ascii_digit a" and "is_ascii_digit b" and "10 * digit_val a + digit_val b < 60"
  shows "\<exists>xs. M_alternatives [a, b] = (10 * digit_val a + digit_val b, []) # xs"
  using is_ascii_digit_cases [OF assms(1)] is_ascii_digit_cases [OF assms(2)] assms(3)
    decimal_digit_ascii [OF assms(2), of "[]"]
  by (elim disjE) (simp_all add: M_alternatives_def digit_val_simps)

text \<open>Every strict \<^verbatim>\<open>HH:MM\<close> string is accepted by \<^verbatim>\<open>strptime\<close>.\<close>

lemma strict_accepted:
  assumes "spec_strict_HHMM s"
  shows "\<exists>h m. strptime_HM s = Inr (h, m) \<and> h < 24 \<and> m < 60"
proof -
  from assms obtain h1 h2 m1 m2 where s: "s = [h1, h2, CHR '':'', m1, m2]"
    and d: "is_ascii_digit h1" "is_ascii_digit h2" "is_ascii_digit m1" "is_ascii_digit m2"
    and r: "10 * digit_val h1 + digit_val h2 < 24" "10 * digit_val m1 + digit_val m2 < 60"
    by (auto simp add: spec_strict_HHMM_def split: list.splits)
  obtain xs where h: "H_alternatives s = (10 * digit_val h1 + digit_val h2, [CHR '':'', m1, m2]) # xs"
    using H_alternatives_strict [OF d(1) d(2) r(1), of "[CHR '':'', m1, m2]"] s by auto
  obtain ys where m: "M_alternatives [m1, m2] = (10 * digit_val m1 + digit_val m2, []) # ys"
    using M_alternatives_strict [OF d(3) d(4) r(2)] by auto
  have "regex_match s =
      Some ((10 * digit_val h1 + digit_val h2, 10 * digit_val m1 + digit_val m2), [])"
    using h m by (simp add: regex_match_def List.map_filter_simps colon_minute_def)
  then show ?thesis using r by (simp add: strptime_HM_def)
qed

lemmas strptime_defs = strptime_HM_def regex_match_def colon_minute_def H_alternatives_def
  M_alternatives_def List.map_filter_simps decimal_digit_ascii decimal_digit_Nil
  decimal_digit_colon is_ascii_digit_def digit_val_simps

lemma strptime_samples:
  "strptime_HM ''07:00'' = Inr (7, 0)"
  "strptime_HM ''19:00'' = Inr (19, 0)"
  "strptime_HM ''08:00'' = Inr (8, 0)"
  "strptime_HM ''9:5'' = Inr (9, 5)"
  "strptime_HM ''25:99'' = Inl ValueError"
  by (simp_all add: strptime_defs)

text \<open>
  A digit outside ASCII counts where the expression has \<^verbatim>\<open>\d\<close>: the text of
  \<open>''0''\<close>, ARABIC-INDIC DIGIT SEVEN (U+0667, bytes D9 A7) and \<open>'':00''\<close> is the time
  07:00, while the same digit after \<open>''2''\<close>, where the expression has \<^verbatim>\<open>[0-3]\<close>,
  does not match.
\<close>

lemma strptime_unicode_samples:
  "strptime_HM (''0'' @ [CHR 0xD9, CHR 0xA7] @ '':00'') = Inr (7, 0)"
  "strptime_HM (''2'' @ [CHR 0xD9, CHR 0xA3] @ '':00'') = Inl ValueError"
  by (simp_all add: strptime_defs decimal_digit_def utf8_head_def decimal_value_def decimal_zeros_def)

lemma sample_payloads_distinct:
  "payload_9_5 \<noteq> payload_0700_1900" "payload_25_99 \<noteq> payload_0700_1900"
  "payload_25_99 \<noteq> payload_9_5" "payload_0800_0700 \<noteq> payload_0700_1900"
  "payload_0800_0700 \<noteq> payload_9_5" "payload_0800_0700 \<noteq> payload_25_99"
  "payload_no_off \<noteq> payload_0700_1900" "payload_no_off \<noteq> payload_9_5"
  "payload_no_off \<noteq> payload_25_99" "payload_no_off \<noteq> payload_0800_0700"
  "binary_frame \<noteq> payload_0700_1900" "binary_frame \<noteq> payload_9_5"
  "binary_frame \<noteq> payload_25_99" "binary_frame \<noteq> payload_0800_0700"
  "binary_frame \<noteq> payload_no_off"
  by (simp_all add: payload_0700_1900_def payload_9_5_def payload_25_99_def payload_0800_0700_def
      payload_no_off_def binary_frame_def)

lemma sample_loads_simps:
  "sample_loads payload_0700_1900 = Inr (JDict [(''on_time'', JStr ''07:00''), (''off_time'', JStr ''19:00'')])"
  "sample_loads payload_9_5 = Inr (JDict [(''on_time'', JStr ''9:5''), (''off_time'', JStr ''19:00'')])"
  "sample_loads payload_25_99 = Inr (JDict [(''on_time'', JStr ''25:99''), (''off_time'', JStr ''19:00'')])"
  "sample_loads payload_0800_0700 = Inr (JDict [(''on_time'', JStr ''08:00''), (''off_time'', JStr ''07:00'')])"
  "sample_loads payload_no_off = Inr (JDict [(''on_time'', JStr ''07:00'')])"
  "sample_loads binary_frame = Inl UnicodeDecodeError"
  by (simp_all add: sample_loads_def sample_payloads_distinct)

section \<open>The message callback of the controller\<close>

lemma on_message_accepts:
  assumes "json_loads payload = Inr (JDict d)"
    and "map_of d ''on_time'' = Some (JStr a)" and "map_of d ''off_time'' = Some (JStr b)"
    and "strp a = Inr t1" and "strp b = Inr t2"
  shows "on_message json_loads strp payload s =
     s\<lparr>current_schedule := \<lparr>on_time = Some a, off_time = Some b\<rparr>, last_command_sent_minute := None\<rparr>"
  using assms by (simp add: on_message_def)

lemma on_message_last_known_state:
  "last_known_state (on_message json_loads strp payload s) = last_known_state s"
  by (simp add: on_message_def split: sum.splits option.splits json.splits prod.splits)

lemma on_message_cases:
  "on_message json_loads strp payload s = s \<or>
   (\<exists>a b. on_message json_loads strp payload s =
      s\<lparr>current_schedule := \<lparr>on_time = Some a, off_time = Some b\<rparr>, last_command_sent_minute := None\<rparr>)"
  by (auto simp add: on_message_def split: sum.splits option.splits json.splits prod.splits)

text \<open>
  C1. A message that parses to an object with valid times replaces the schedule and clears
  \<open>last_command_sent_minute\<close>, but \<open>last_known_state\<close> is never reset: no message
  changes it. With the relay known to be on and the schedule 06:30/22:00, the message
  \<^verbatim>\<open>{"on_time": "07:00", "off_time": "19:00"}\<close> stores the new pair, clears the minute
  and leaves the known state \<open>''1''\<close>.
\<close>

theorem on_message_keeps_known_state:
  "last_known_state (on_message json_loads strp payload s) = last_known_state s \<and>
   on_message sample_loads strptime_HM payload_0700_1900 relay_on_state =
     relay_on_state\<lparr>current_schedule := \<lparr>on_time = Some ''07:00'', off_time = Some ''19:00''\<rparr>,
                    last_command_sent_minute := None\<rparr> \<and>
   last_known_state (on_message sample_loads strptime_HM payload_0700_1900 relay_on_state) = Some ''1''"
proof -
  have a: "on_message sample_loads strptime_HM payload_0700_1900 relay_on_state =
     relay_on_state\<lparr>current_schedule := \<lparr>on_time = Some ''07:00'', off_time = Some ''19:00''\<rparr>,
                    last_command_sent_minute := None\<rparr>"
    using on_message_accepts [of sample_loads payload_0700_1900
        "[(''on_time'', JStr ''07:00''), (''off_time'', JStr ''19:00'')]" "''07:00''" "''19:00''"
        strptime_HM "(7, 0)" "(19, 0)" relay_on_state]
    by (simp add: sample_loads_simps strptime_samples)
  have b: "last_known_state relay_on_state = Some ''1''" by (simp add: relay_on_state_def)
  show ?thesis using a b on_message_last_known_state [of json_loads strp payload s] by simp
qed




section \<open>One iteration of the main loop\<close>

lemmas loop_defs = loop_body_def reconnect_step_def schedule_logic_def command_branch_def
  send_to_arduino_def close_serial_safely_def setup_serial_def connected_def
  SERIAL_RECONNECT_DELAY_SECONDS_def Let_def

lemma loop_body_snd:
  "snd (loop_body t s) = snd (reconnect_step t s) @ snd (schedule_logic t (fst (reconnect_step t s)))"
  by (simp add: loop_body_def split: prod.splits)

lemma loop_body_fst:
  "fst (loop_body t s) = fst (schedule_logic t (fst (reconnect_step t s)))"
  by (simp add: loop_body_def split: prod.splits)

lemma run_Cons_snd: "snd (run (t # ts) s) = snd (loop_body t s) @ snd (run ts (fst (loop_body t s)))"
  by (simp split: prod.splits)

lemma run_Cons_fst: "fst (run (t # ts) s) = fst (run ts (fst (loop_body t s)))"
  by (simp split: prod.splits)

lemma is_write_imp_attempt: "is_write e \<Longrightarrow> is_write_attempt e"
  by (cases e) simp_all

lemma reconnect_step_no_write: "\<forall>e\<in>set (snd (reconnect_step t s)). \<not> is_write_attempt e"
  by (simp add: reconnect_step_def setup_serial_def Let_def)

lemma reconnect_step_schedule: "current_schedule (fst (reconnect_step t s)) = current_schedule s"
  by (simp add: reconnect_step_def setup_serial_def Let_def)

lemma reconnect_step_down:
  assumes "arduino s = None"
  shows "reconnect_step t s =
     (if now t - last_serial_connect_attempt s > SERIAL_RECONNECT_DELAY_SECONDS then
        (if open_ok t
         then s\<lparr>last_serial_connect_attempt := now t, arduino := Some (Serial True),
                last_known_state := None, last_command_sent_minute := None\<rparr>
         else s\<lparr>last_serial_connect_attempt := now t, arduino := None, last_known_state := None\<rparr>,
         [SerialOpen (open_ok t)])
      else (s, []))"
  using assms by (simp add: reconnect_step_def setup_serial_def connected_def Let_def)

lemma loop_body_schedule: "current_schedule (fst (loop_body t s)) = current_schedule s"
  by (simp add: loop_defs split: prod.splits option.splits)

lemma loop_body_settled: "settled (now_str t) s \<Longrightarrow> loop_body t s = (s, [])"
  by (simp add: settled_def loop_body_def reconnect_step_def schedule_logic_def command_branch_def)

lemma run_settled: "settled m s \<Longrightarrow> \<forall>t\<in>set ts. now_str t = m \<Longrightarrow> run ts s = (s, [])"
  by (induction ts) (simp_all add: loop_body_settled)

lemma loop_body_waiting:
  "\<not> connected s \<Longrightarrow> now t - last_serial_connect_attempt s \<le> SERIAL_RECONNECT_DELAY_SECONDS \<Longrightarrow>
   loop_body t s = (s, [])"
  by (simp add: loop_body_def reconnect_step_def schedule_logic_def)

subsection \<open>Debounce\<close>

lemma command_branch_cases:
  "connected s \<Longrightarrow>
   filter is_write (snd (command_branch cmd t s)) = [] \<or>
   (filter is_write (snd (command_branch cmd t s)) = [SerialWrite cmd] \<and>
    settled (now_str t) (fst (command_branch cmd t s)))"
  by (auto simp add: command_branch_def send_to_arduino_def close_serial_safely_def settled_def
      connected_def Let_def split: option.splits)

lemma schedule_logic_cases:
  "filter is_write (snd (schedule_logic t s)) = [] \<or>
   (length (filter is_write (snd (schedule_logic t s))) = 1 \<and>
    settled (now_str t) (fst (schedule_logic t s)))"
  using command_branch_cases [of s "''1''" t] command_branch_cases [of s "''0''" t]
  by (auto simp add: schedule_logic_def)

lemma loop_body_cases:
  "filter is_write (snd (loop_body t s)) = [] \<or>
   (length (filter is_write (snd (loop_body t s))) = 1 \<and> settled (now_str t) (fst (loop_body t s)))"
proof -
  have "filter is_write (snd (reconnect_step t s)) = []"
    using reconnect_step_no_write [of t s]
    by (auto simp add: filter_empty_conv dest: is_write_imp_attempt)
  then show ?thesis
    using schedule_logic_cases [of t "fst (reconnect_step t s)"]
    by (simp add: loop_body_snd loop_body_fst)
qed

lemma run_at_most_one:
  "\<forall>t\<in>set ts. now_str t = m \<Longrightarrow> length (filter is_write (snd (run ts s))) \<le> 1"
proof (induction ts arbitrary: s)
  case Nil
  then show ?case by simp
next
  case (Cons t ts)
  have m: "now_str t = m" and rest: "\<forall>t\<in>set ts. now_str t = m" using Cons.prems by simp_all
  from loop_body_cases [of t s]
  consider "filter is_write (snd (loop_body t s)) = []"
    | "length (filter is_write (snd (loop_body t s))) = 1" "settled m (fst (loop_body t s))"
    using m by auto
  then show ?case
  proof cases
    case 1
    then show ?thesis using Cons.IH [OF rest, of "fst (loop_body t s)"]
      by (simp only: run_Cons_snd filter_append) simp
  next
    case 2
    then have "run ts (fst (loop_body t s)) = (fst (loop_body t s), [])"
      using run_settled rest by blast
    then show ?thesis using 2 by (simp only: run_Cons_snd filter_append) simp
  qed
qed

lemma command_branch_no_failure:
  "write_ok t \<Longrightarrow> filter is_write_attempt (snd (command_branch cmd t s)) = filter is_write (snd (command_branch cmd t s))"
  by (simp add: command_branch_def send_to_arduino_def split: prod.splits)

lemma loop_body_no_failure:
  assumes "write_ok t"
  shows "filter is_write_attempt (snd (loop_body t s)) = filter is_write (snd (loop_body t s))"
proof -
  have a: "filter is_write_attempt (snd (reconnect_step t s)) = []"
    using reconnect_step_no_write [of t s] by (auto simp add: filter_empty_conv)
  have b: "filter is_write (snd (reconnect_step t s)) = []"
    using reconnect_step_no_write [of t s]
    by (auto simp add: filter_empty_conv dest: is_write_imp_attempt)
  have c: "filter is_write_attempt (snd (schedule_logic t (fst (reconnect_step t s)))) =
           filter is_write (snd (schedule_logic t (fst (reconnect_step t s))))"
    using command_branch_no_failure [OF assms] by (simp add: schedule_logic_def)
  show ?thesis using a b c by (simp add: loop_body_snd)
qed

lemma run_no_failure:
  "\<forall>t\<in>set ts. write_ok t \<Longrightarrow>
   filter is_write_attempt (snd (run ts s)) = filter is_write (snd (run ts s))"
proof (induction ts arbitrary: s)
  case Nil
  then show ?case by simp
next
  case (Cons t ts)
  then show ?case
    using loop_body_no_failure [of t s] by (simp only: run_Cons_snd filter_append) simp
qed

lemma three_ticks:
  assumes "connected s"
    and "current_schedule s = \<lparr>on_time = Some ''07:00'', off_time = Some ''19:00''\<rparr>"
    and "last_known_state s = None"
    and "last_command_sent_minute s \<noteq> Some ''07:00''"
    and "now_str t1 = ''07:00''" and "now_str t2 = ''07:00''" and "now_str t3 = ''07:00''"
    and "write_ok t1"
  shows "snd (run [t1, t2, t3] s) = [SerialWrite ''1'']"
proof -
  let ?s1 = "s\<lparr>last_known_state := Some ''1'', last_command_sent_minute := Some ''07:00''\<rparr>"
  have 1: "loop_body t1 s = (?s1, [SerialWrite ''1''])"
    using assms
    by (auto simp add: loop_body_def reconnect_step_def schedule_logic_def command_branch_def
        send_to_arduino_def connected_def split: option.splits)
  have "settled ''07:00'' ?s1" using assms by (simp add: settled_def connected_def)
  then have 2: "run [t2, t3] ?s1 = (?s1, [])"
    using run_settled [of "''07:00''" ?s1 "[t2, t3]"] assms by simp
  show ?thesis using 1 2 by simp
qed

text \<open>
  C4, amended. Over any sequence of iterations with no bus message handled between them,
  all reading the same minute, at most one command is written to the serial port, whatever
  the starting state; when no write fails, at most one write is even attempted. In
  particular, with the schedule 07:00/19:00, the link up, the device state unknown and
  three iterations reading \<open>''07:00''\<close>, the first write succeeding, the serial port sees
  exactly one ON command and nothing else.
\<close>

theorem one_command_per_minute:
  "((\<forall>t\<in>set ts. now_str t = m) \<longrightarrow>
      length (filter is_write (snd (run ts s))) \<le> 1 \<and>
      ((\<forall>t\<in>set ts. write_ok t) \<longrightarrow> length (filter is_write_attempt (snd (run ts s))) \<le> 1)) \<and>
   (connected s0 \<and> current_schedule s0 = \<lparr>on_time = Some ''07:00'', off_time = Some ''19:00''\<rparr> \<and>
    last_known_state s0 = None \<and> last_command_sent_minute s0 \<noteq> Some ''07:00'' \<and>
    now_str t1 = ''07:00'' \<and> now_str t2 = ''07:00'' \<and> now_str t3 = ''07:00'' \<and> write_ok t1
    \<longrightarrow> snd (run [t1, t2, t3] s0) = [SerialWrite ''1''])"
  using run_at_most_one [of ts m s] run_no_failure [of ts s] three_ticks [of s0 t1 t2 t3]
  by (metis (no_types, lifting))

theorem one_command_per_minute_witness:
  "snd (run [tick_at 1000 ''07:00'' True True, tick_at 1001 ''07:00'' True True,
             tick_at 1002 ''07:00'' True True] armed_state) = [SerialWrite ''1''] \<and>
   length (filter is_write_attempt (snd (run [tick_at 1000 ''07:00'' True True,
             tick_at 1001 ''07:00'' True True, tick_at 1002 ''07:00'' True True] armed_state))) \<le> 1"
proof -
  let ?ts = "[tick_at 1000 ''07:00'' True True, tick_at 1001 ''07:00'' True True,
             tick_at 1002 ''07:00'' True True]"
  have h1: "\<forall>t\<in>set ?ts. now_str t = ''07:00''" by (simp add: tick_at_def)
  have h2: "\<forall>t\<in>set ?ts. write_ok t" by (simp add: tick_at_def)
  have h3: "connected armed_state \<and>
      current_schedule armed_state = \<lparr>on_time = Some ''07:00'', off_time = Some ''19:00''\<rparr> \<and>
      last_known_state armed_state = None \<and> last_command_sent_minute armed_state \<noteq> Some ''07:00''"
    by (simp add: armed_state_def connected_def)
  have h4: "now_str (tick_at 1000 ''07:00'' True True) = ''07:00'' \<and>
      now_str (tick_at 1001 ''07:00'' True True) = ''07:00'' \<and>
      now_str (tick_at 1002 ''07:00'' True True) = ''07:00'' \<and> write_ok (tick_at 1000 ''07:00'' True True)"
    by (simp add: tick_at_def)
  show ?thesis
    using one_command_per_minute [of ?ts "''07:00''" armed_state armed_state
        "tick_at 1000 ''07:00'' True True" "tick_at 1001 ''07:00'' True True"
        "tick_at 1002 ''07:00'' True True"] h1 h2 h3 h4
    by blast
qed

text \<open>
  C7. With the link up, the minute equal to \<open>on_time\<close>, that minute not yet recorded and
  the relay already known to be on, the iteration writes nothing to the serial port and
  records the minute.
\<close>

theorem state_skip:
  assumes "connected s"
    and "on_time (current_schedule s) = Some (now_str t)"
    and "last_command_sent_minute s \<noteq> Some (now_str t)"
    and "last_known_state s = Some ''1''"
  shows "loop_body t s = (s\<lparr>last_command_sent_minute := Some (now_str t)\<rparr>, [])"
  using assms by (simp add: loop_body_def reconnect_step_def schedule_logic_def command_branch_def)

theorem state_skip_witness:
  "loop_body (tick_at 1000 ''07:00'' True True) (armed_state\<lparr>last_known_state := Some ''1''\<rparr>)
     = (armed_state\<lparr>last_known_state := Some ''1'', last_command_sent_minute := Some ''07:00''\<rparr>, [])"
  using state_skip [of "armed_state\<lparr>last_known_state := Some ''1''\<rparr>" "tick_at 1000 ''07:00'' True True"]
  by (simp add: armed_state_def tick_at_def connected_def)

subsection \<open>Order of the two branches\<close>

lemma command_branch_one_attempt:
  "length (filter is_write_attempt (snd (command_branch cmd t s))) \<le> 1"
  by (simp add: command_branch_def send_to_arduino_def close_serial_safely_def split: prod.splits)

lemma loop_body_one_attempt:
  "length (filter is_write_attempt (snd (loop_body t s))) \<le> 1"
proof -
  have a: "filter is_write_attempt (snd (reconnect_step t s)) = []"
    using reconnect_step_no_write [of t s] by (auto simp add: filter_empty_conv)
  have b: "length (filter is_write_attempt (snd (schedule_logic t (fst (reconnect_step t s))))) \<le> 1"
    using command_branch_one_attempt by (simp add: schedule_logic_def)
  show ?thesis using a b by (simp add: loop_body_snd)
qed

lemma loop_body_on_no_off:
  "on_time (current_schedule s) = Some (now_str t) \<Longrightarrow>
   SerialWrite ''0'' \<notin> set (snd (loop_body t s)) \<and> SerialWriteFailed ''0'' \<notin> set (snd (loop_body t s))"
  by (simp add: loop_defs split: prod.splits option.splits)

lemma run_on_no_off:
  "on_time (current_schedule s) = Some m \<Longrightarrow> \<forall>t\<in>set ts. now_str t = m \<Longrightarrow>
   SerialWrite ''0'' \<notin> set (snd (run ts s)) \<and> SerialWriteFailed ''0'' \<notin> set (snd (run ts s))"
proof (induction ts arbitrary: s)
  case Nil
  then show ?case by simp
next
  case (Cons t ts)
  have m: "now_str t = m" using Cons.prems by simp
  have a: "SerialWrite ''0'' \<notin> set (snd (loop_body t s)) \<and> SerialWriteFailed ''0'' \<notin> set (snd (loop_body t s))"
    using loop_body_on_no_off [of s t] Cons.prems(1) m by simp
  have "on_time (current_schedule (fst (loop_body t s))) = Some m"
    using loop_body_schedule [of t s] Cons.prems(1) by simp
  then have b: "SerialWrite ''0'' \<notin> set (snd (run ts (fst (loop_body t s)))) \<and>
                SerialWriteFailed ''0'' \<notin> set (snd (run ts (fst (loop_body t s))))"
    using Cons.IH Cons.prems(2) by simp
  show ?case using a b by (simp only: run_Cons_snd set_append Un_iff) simp
qed

lemma tie_takes_on_branch:
  "connected s \<Longrightarrow> on_time (current_schedule s) = Some (now_str t) \<Longrightarrow>
   schedule_logic t s = command_branch ''1'' t s"
  by (simp add: schedule_logic_def)

text \<open>
  C6. An iteration attempts at most one serial write, so the ON and the OFF branch never
  both act. Whenever the minute equals \<open>on_time\<close> (whatever \<open>off_time\<close> is, equal
  to it or not), the schedule step is the ON branch alone, and over every sequence of
  iterations in that minute no OFF command is written or even attempted.
\<close>

theorem on_before_off:
  "length (filter is_write_attempt (snd (loop_body t s))) \<le> 1 \<and>
   (connected s \<and> on_time (current_schedule s) = Some (now_str t) \<and>
    off_time (current_schedule s) = Some (now_str t)
      \<longrightarrow> schedule_logic t s = command_branch ''1'' t s) \<and>
   (on_time (current_schedule s) = Some m \<and> off_time (current_schedule s) = Some m \<and>
    (\<forall>u\<in>set ts. now_str u = m)
      \<longrightarrow> SerialWrite ''0'' \<notin> set (snd (run ts s)) \<and> SerialWriteFailed ''0'' \<notin> set (snd (run ts s)))"
  using loop_body_one_attempt [of t s] tie_takes_on_branch [of s t] run_on_no_off [of s m ts]
  by blast

theorem on_before_off_witness:
  "snd (run [tick_at 1000 ''07:00'' True True, tick_at 1001 ''07:00'' True True]
        (armed_state\<lparr>current_schedule := \<lparr>on_time = Some ''07:00'', off_time = Some ''07:00''\<rparr>\<rparr>))
     = [SerialWrite ''1''] \<and>
   SerialWrite ''0'' \<notin> set (snd (run [tick_at 1000 ''07:00'' True True, tick_at 1001 ''07:00'' True True]
        (armed_state\<lparr>current_schedule := \<lparr>on_time = Some ''07:00'', off_time = Some ''07:00''\<rparr>\<rparr>))) \<and>
   schedule_logic (tick_at 1000 ''07:00'' True True)
        (armed_state\<lparr>current_schedule := \<lparr>on_time = Some ''07:00'', off_time = Some ''07:00''\<rparr>\<rparr>)
     = command_branch ''1'' (tick_at 1000 ''07:00'' True True)
        (armed_state\<lparr>current_schedule := \<lparr>on_time = Some ''07:00'', off_time = Some ''07:00''\<rparr>\<rparr>)"
proof -
  let ?s = "armed_state\<lparr>current_schedule := \<lparr>on_time = Some ''07:00'', off_time = Some ''07:00''\<rparr>\<rparr>"
  let ?t = "tick_at 1000 ''07:00'' True True"
  let ?ts = "[tick_at 1000 ''07:00'' True True, tick_at 1001 ''07:00'' True True]"
  have h1: "connected ?s \<and> on_time (current_schedule ?s) = Some (now_str ?t) \<and>
      off_time (current_schedule ?s) = Some (now_str ?t)"
    by (simp add: armed_state_def connected_def tick_at_def)
  have h2: "on_time (current_schedule ?s) = Some ''07:00'' \<and> off_time (current_schedule ?s) = Some ''07:00'' \<and>
      (\<forall>u\<in>set ?ts. now_str u = ''07:00'')"
    by (simp add: armed_state_def tick_at_def)
  let ?s1 = "?s\<lparr>last_known_state := Some ''1'', last_command_sent_minute := Some ''07:00''\<rparr>"
  have 1: "loop_body ?t ?s = (?s1, [SerialWrite ''1''])"
    by (simp add: loop_body_def reconnect_step_def schedule_logic_def command_branch_def
        send_to_arduino_def connected_def armed_state_def tick_at_def)
  have "settled ''07:00'' ?s1" by (simp add: settled_def connected_def armed_state_def)
  then have 2: "run [tick_at 1001 ''07:00'' True True] ?s1 = (?s1, [])"
    using run_settled [of "''07:00''" ?s1 "[tick_at 1001 ''07:00'' True True]"]
    by (simp add: tick_at_def)
  have 3: "snd (run ?ts ?s) = [SerialWrite ''1'']" using 1 2 by simp
  show ?thesis
    using on_before_off [of ?t ?s "''07:00''" ?ts] h1 h2 3 by blast
qed

subsection \<open>Reconnecting\<close>

lemma armed_write_fails:
  "loop_body (tick_at n ''07:00'' o_ok False) (armed_state\<lparr>last_serial_connect_attempt := l\<rparr>) =
     (armed_state\<lparr>last_serial_connect_attempt := l, arduino := None\<rparr>, [SerialWriteFailed ''1'', SerialClose])"
  by (simp add: loop_defs armed_state_def tick_at_def)

lemma armed_state_last_attempt: "armed_state\<lparr>last_serial_connect_attempt := 995\<rparr> = armed_state"
  by (simp add: armed_state_def)

text \<open>
  C2, as stated, fails: the loop measures the interval from the last connection attempt,
  not from the write failure. With the last attempt at time 0, a write that fails at time
  1000 is followed by a reconnect attempt in the next iteration, at time 1001.
\<close>

theorem reconnect_soon_after_failure:
  "SerialWriteFailed ''1'' \<in> set (snd (loop_body (tick_at 1000 ''07:00'' True False)
        (armed_state\<lparr>last_serial_connect_attempt := 0\<rparr>))) \<and>
   SerialOpen True \<in> set (snd (loop_body (tick_at 1001 ''07:00'' True True)
        (fst (loop_body (tick_at 1000 ''07:00'' True False)
           (armed_state\<lparr>last_serial_connect_attempt := 0\<rparr>))))) \<and>
   now (tick_at 1001 ''07:00'' True True) - now (tick_at 1000 ''07:00'' True False)
     < SERIAL_RECONNECT_DELAY_SECONDS"
proof -
  have a: "SerialOpen True \<in> set (snd (loop_body (tick_at 1001 ''07:00'' True True)
      (armed_state\<lparr>last_serial_connect_attempt := 0, arduino := None\<rparr>)))"
    by (simp add: loop_body_snd reconnect_step_down SERIAL_RECONNECT_DELAY_SECONDS_def
        armed_state_def tick_at_def)
  show ?thesis
    using a by (simp add: armed_write_fails) (simp add: tick_at_def SERIAL_RECONNECT_DELAY_SECONDS_def)
qed

lemma loop_body_gated:
  "now t - last_serial_connect_attempt s \<le> SERIAL_RECONNECT_DELAY_SECONDS \<Longrightarrow>
   filter is_open_attempt (snd (loop_body t s)) = [] \<and>
   last_serial_connect_attempt (fst (loop_body t s)) = last_serial_connect_attempt s"
  by (simp add: loop_body_def reconnect_step_def schedule_logic_def command_branch_def
      send_to_arduino_def close_serial_safely_def split: prod.splits)

lemma run_gated:
  "\<forall>t\<in>set ts. now t - last_serial_connect_attempt s \<le> SERIAL_RECONNECT_DELAY_SECONDS \<Longrightarrow>
   filter is_open_attempt (snd (run ts s)) = [] \<and>
   last_serial_connect_attempt (fst (run ts s)) = last_serial_connect_attempt s"
proof (induction ts arbitrary: s)
  case Nil
  then show ?case by simp
next
  case (Cons t ts)
  have a: "filter is_open_attempt (snd (loop_body t s)) = [] \<and>
      last_serial_connect_attempt (fst (loop_body t s)) = last_serial_connect_attempt s"
    using loop_body_gated [of t s] Cons.prems by simp
  then have "\<forall>u\<in>set ts. now u - last_serial_connect_attempt (fst (loop_body t s))
      \<le> SERIAL_RECONNECT_DELAY_SECONDS"
    using Cons.prems by simp
  then have b: "filter is_open_attempt (snd (run ts (fst (loop_body t s)))) = [] \<and>
      last_serial_connect_attempt (fst (run ts (fst (loop_body t s))))
        = last_serial_connect_attempt (fst (loop_body t s))"
    using Cons.IH by blast
  show ?case using a b by (simp only: run_Cons_snd run_Cons_fst filter_append) simp
qed

lemma schedule_logic_no_open:
  "filter is_open_attempt (snd (schedule_logic t s)) = [] \<and>
   last_serial_connect_attempt (fst (schedule_logic t s)) = last_serial_connect_attempt s"
  by (simp add: schedule_logic_def command_branch_def send_to_arduino_def close_serial_safely_def
      split: prod.splits)

lemma reconnect_step_attempt:
  "\<exists>e\<in>set (snd (reconnect_step t s)). is_open_attempt e \<Longrightarrow>
   now t - last_serial_connect_attempt s > SERIAL_RECONNECT_DELAY_SECONDS \<and>
   last_serial_connect_attempt (fst (reconnect_step t s)) = now t"
  by (auto simp add: reconnect_step_def setup_serial_def Let_def split: if_splits)

lemma loop_body_attempt:
  assumes "\<exists>e\<in>set (snd (loop_body t s)). is_open_attempt e"
  shows "now t - last_serial_connect_attempt s > SERIAL_RECONNECT_DELAY_SECONDS \<and>
         last_serial_connect_attempt (fst (loop_body t s)) = now t"
proof -
  have "\<forall>e\<in>set (snd (schedule_logic t (fst (reconnect_step t s)))). \<not> is_open_attempt e"
    using schedule_logic_no_open [of t "fst (reconnect_step t s)"] by (simp add: filter_empty_conv)
  then have "\<exists>e\<in>set (snd (reconnect_step t s)). is_open_attempt e"
    using assms by (auto simp add: loop_body_snd)
  then show ?thesis
    using reconnect_step_attempt [of t s] schedule_logic_no_open [of t "fst (reconnect_step t s)"]
    by (simp add: loop_body_fst)
qed

text \<open>
  C2, amended. As long as every iteration reads a clock no more than the reconnect interval
  (10 s) past the last connection attempt, no reconnect attempt occurs, however many
  iterations pass and whichever writes fail in them, and the time of the last attempt
  stays as it was. An iteration that does attempt a reconnect reads a clock more than 10 s
  past the last attempt and records its own clock as the time of the last attempt.
\<close>

theorem reconnect_gating:
  "((\<forall>t\<in>set ts. now t - last_serial_connect_attempt s \<le> SERIAL_RECONNECT_DELAY_SECONDS) \<longrightarrow>
      filter is_open_attempt (snd (run ts s)) = [] \<and>
      last_serial_connect_attempt (fst (run ts s)) = last_serial_connect_attempt s) \<and>
   ((\<exists>e\<in>set (snd (loop_body t s0)). is_open_attempt e) \<longrightarrow>
      now t - last_serial_connect_attempt s0 > SERIAL_RECONNECT_DELAY_SECONDS \<and>
      last_serial_connect_attempt (fst (loop_body t s0)) = now t)"
  using run_gated [of ts s] loop_body_attempt [of t s0] by blast

theorem reconnect_gating_witness:
  "filter is_open_attempt (snd (run [tick_at 1000 ''07:00'' True False, tick_at 1001 ''07:00'' True True,
        tick_at 1002 ''07:00'' True True, tick_at 1005 ''07:00'' True True] armed_state)) = [] \<and>
   SerialWriteFailed ''1'' \<in> set (snd (run [tick_at 1000 ''07:00'' True False, tick_at 1001 ''07:00'' True True,
        tick_at 1002 ''07:00'' True True, tick_at 1005 ''07:00'' True True] armed_state)) \<and>
   SerialOpen True \<in> set (snd (loop_body (tick_at 1006 ''07:00'' True True) (armed_state\<lparr>arduino := None\<rparr>))) \<and>
   last_serial_connect_attempt (fst (loop_body (tick_at 1006 ''07:00'' True True) (armed_state\<lparr>arduino := None\<rparr>))) = 1006"
proof -
  let ?ts = "[tick_at 1000 ''07:00'' True False, tick_at 1001 ''07:00'' True True,
        tick_at 1002 ''07:00'' True True, tick_at 1005 ''07:00'' True True]"
  have h1: "\<forall>t\<in>set ?ts. now t - last_serial_connect_attempt armed_state \<le> SERIAL_RECONNECT_DELAY_SECONDS"
    by (simp add: tick_at_def armed_state_def SERIAL_RECONNECT_DELAY_SECONDS_def)
  have e: "SerialOpen True \<in> set (snd (loop_body (tick_at 1006 ''07:00'' True True) (armed_state\<lparr>arduino := None\<rparr>)))"
    by (simp add: loop_body_snd reconnect_step_down SERIAL_RECONNECT_DELAY_SECONDS_def
        armed_state_def tick_at_def)
  then have h2: "\<exists>e\<in>set (snd (loop_body (tick_at 1006 ''07:00'' True True) (armed_state\<lparr>arduino := None\<rparr>))). is_open_attempt e"
    using is_open_attempt.simps(1) by blast
  have "SerialWriteFailed ''1'' \<in> set (snd (loop_body (tick_at 1000 ''07:00'' True False) armed_state))"
    using armed_write_fails [of 1000 True 995] by (simp add: armed_state_last_attempt)
  then have w: "SerialWriteFailed ''1'' \<in> set (snd (run ?ts armed_state))"
    by (simp only: run_Cons_snd set_append Un_iff) simp
  show ?thesis
    using reconnect_gating [of ?ts armed_state "tick_at 1006 ''07:00'' True True" "armed_state\<lparr>arduino := None\<rparr>"]
      h1 h2 e w
    by (simp add: tick_at_def)
qed

subsection \<open>A write that fails\<close>

lemma command_branch_failed:
  assumes "SerialWriteFailed c \<in> set (snd (command_branch cmd t s))"
  shows "c = cmd \<and> fst (command_branch cmd t s) = s\<lparr>arduino := None\<rparr> \<and>
         last_command_sent_minute s \<noteq> Some (now_str t)"
  using assms
  by (auto simp add: command_branch_def send_to_arduino_def close_serial_safely_def
      split: if_splits)

lemma schedule_logic_failed:
  assumes "SerialWriteFailed cmd \<in> set (snd (schedule_logic t s))"
  shows "fst (schedule_logic t s) = s\<lparr>arduino := None\<rparr>"
    and "last_command_sent_minute s \<noteq> Some (now_str t)"
    and "cmd = ''1'' \<and> on_time (current_schedule s) = Some (now_str t) \<or>
         cmd = ''0'' \<and> on_time (current_schedule s) \<noteq> Some (now_str t) \<and>
           off_time (current_schedule s) = Some (now_str t)"
  using assms command_branch_failed [of cmd "''1''" t s] command_branch_failed [of cmd "''0''" t s]
  by (auto simp add: schedule_logic_def split: if_splits)

lemma failed_send_state:
  assumes "SerialWriteFailed cmd \<in> set (snd (loop_body t s))"
  shows "fst (loop_body t s) = (fst (reconnect_step t s))\<lparr>arduino := None\<rparr>"
    and "last_command_sent_minute (fst (reconnect_step t s)) \<noteq> Some (now_str t)"
    and "cmd = ''1'' \<and> on_time (current_schedule s) = Some (now_str t) \<or>
         cmd = ''0'' \<and> on_time (current_schedule s) \<noteq> Some (now_str t) \<and>
           off_time (current_schedule s) = Some (now_str t)"
proof -
  have "SerialWriteFailed cmd \<notin> set (snd (reconnect_step t s))"
    using reconnect_step_no_write [of t s] by auto
  then have f: "SerialWriteFailed cmd \<in> set (snd (schedule_logic t (fst (reconnect_step t s))))"
    using assms by (simp add: loop_body_snd)
  show "fst (loop_body t s) = (fst (reconnect_step t s))\<lparr>arduino := None\<rparr>"
    using schedule_logic_failed(1) [OF f] by (simp add: loop_body_fst)
  show "last_command_sent_minute (fst (reconnect_step t s)) \<noteq> Some (now_str t)"
    using schedule_logic_failed(2) [OF f] .
  show "cmd = ''1'' \<and> on_time (current_schedule s) = Some (now_str t) \<or>
         cmd = ''0'' \<and> on_time (current_schedule s) \<noteq> Some (now_str t) \<and>
           off_time (current_schedule s) = Some (now_str t)"
    using schedule_logic_failed(3) [OF f] by (simp add: reconnect_step_schedule)
qed

lemma command_branch_fresh_attempts:
  assumes "connected s" and "last_command_sent_minute s = None" and "last_known_state s = None"
  shows "filter is_write_attempt (snd (command_branch cmd t s)) =
     [if write_ok t then SerialWrite cmd else SerialWriteFailed cmd]"
  using assms
  by (simp add: command_branch_def send_to_arduino_def close_serial_safely_def split: prod.splits)

lemma retry_after_reconnect:
  assumes "arduino s = None"
    and "cmd = ''1'' \<and> on_time (current_schedule s) = Some (now_str t) \<or>
         cmd = ''0'' \<and> on_time (current_schedule s) \<noteq> Some (now_str t) \<and>
           off_time (current_schedule s) = Some (now_str t)"
  shows "filter is_write_attempt (snd (loop_body t s)) =
     (if now t - last_serial_connect_attempt s > SERIAL_RECONNECT_DELAY_SECONDS \<and> open_ok t
      then [if write_ok t then SerialWrite cmd else SerialWriteFailed cmd] else [])"
proof (cases "now t - last_serial_connect_attempt s > SERIAL_RECONNECT_DELAY_SECONDS \<and> open_ok t")
  case True
  let ?s1 = "s\<lparr>last_serial_connect_attempt := now t, arduino := Some (Serial True),
                last_known_state := None, last_command_sent_minute := None\<rparr>"
  have r: "reconnect_step t s = (?s1, [SerialOpen True])"
    using reconnect_step_down [OF assms(1), of t] True by simp
  have c: "connected ?s1" by (simp add: connected_def)
  have "filter is_write_attempt (snd (schedule_logic t ?s1)) =
      [if write_ok t then SerialWrite cmd else SerialWriteFailed cmd]"
    using assms(2) c command_branch_fresh_attempts [of ?s1 cmd t]
    by (auto simp add: schedule_logic_def)
  then show ?thesis using r True by (simp add: loop_body_snd)
next
  case False
  then have "\<not> connected (fst (reconnect_step t s)) \<and>
      filter is_write_attempt (snd (reconnect_step t s)) = []"
    using reconnect_step_down [OF assms(1), of t] assms(1) by (auto simp add: connected_def)
  then show ?thesis using False by (simp add: loop_body_snd schedule_logic_def)
qed

text \<open>
  C5, as stated, fails in its second half: the failed write closes the serial link, and
  the next iteration of the same minute sends nothing while the link is down. With the
  last connection attempt at time 995, a write that fails at time 1000 is followed at time
  1001 by an iteration that neither reconnects nor writes.
\<close>

theorem no_retry_while_link_down:
  "SerialWriteFailed ''1'' \<in> set (snd (loop_body (tick_at 1000 ''07:00'' True False) armed_state)) \<and>
   now_str (tick_at 1001 ''07:00'' True True) = now_str (tick_at 1000 ''07:00'' True False) \<and>
   snd (loop_body (tick_at 1001 ''07:00'' True True)
        (fst (loop_body (tick_at 1000 ''07:00'' True False) armed_state))) = []"
proof -
  have a: "loop_body (tick_at 1000 ''07:00'' True False) armed_state =
      (armed_state\<lparr>arduino := None\<rparr>, [SerialWriteFailed ''1'', SerialClose])"
    using armed_write_fails [of 1000 True 995] by (simp add: armed_state_last_attempt)
  have b: "loop_body (tick_at 1001 ''07:00'' True True) (armed_state\<lparr>arduino := None\<rparr>) =
      (armed_state\<lparr>arduino := None\<rparr>, [])"
    by (rule loop_body_waiting)
       (simp_all add: connected_def armed_state_def tick_at_def SERIAL_RECONNECT_DELAY_SECONDS_def)
  show ?thesis using a b by (simp add: tick_at_def)
qed

text \<open>
  C5, amended. An iteration whose serial write fails does not record the minute:
  \<open>last_command_sent_minute\<close> keeps the value it had when the write was made, which is
  not the current minute, and the link is marked down. In a following iteration of the
  same minute the same command is written again exactly when that iteration reconnects
  the link (more than 10 s after the last connection attempt, and the port opens);
  otherwise that iteration writes nothing.
\<close>

theorem failed_send_retried:
  assumes "SerialWriteFailed cmd \<in> set (snd (loop_body t s))"
    and "now_str t' = now_str t"
  shows "last_command_sent_minute (fst (loop_body t s)) = last_command_sent_minute (fst (reconnect_step t s)) \<and>
         last_command_sent_minute (fst (loop_body t s)) \<noteq> Some (now_str t) \<and>
         arduino (fst (loop_body t s)) = None \<and>
         filter is_write_attempt (snd (loop_body t' (fst (loop_body t s)))) =
           (if now t' - last_serial_connect_attempt (fst (loop_body t s)) > SERIAL_RECONNECT_DELAY_SECONDS
               \<and> open_ok t'
            then [if write_ok t' then SerialWrite cmd else SerialWriteFailed cmd] else [])"
proof -
  let ?s' = "fst (loop_body t s)"
  note f = failed_send_state [OF assms(1)]
  have a: "arduino ?s' = None" using f(1) by simp
  have l: "last_command_sent_minute ?s' = last_command_sent_minute (fst (reconnect_step t s))"
    using f(1) by simp
  have n: "last_command_sent_minute ?s' \<noteq> Some (now_str t)" using l f(2) by simp
  have c: "current_schedule ?s' = current_schedule s"
    using f(1) reconnect_step_schedule [of t s] by simp
  have r: "filter is_write_attempt (snd (loop_body t' ?s')) =
     (if now t' - last_serial_connect_attempt ?s' > SERIAL_RECONNECT_DELAY_SECONDS \<and> open_ok t'
      then [if write_ok t' then SerialWrite cmd else SerialWriteFailed cmd] else [])"
    using retry_after_reconnect [of ?s' cmd t'] a c f(3) assms(2) by simp
  show ?thesis using a l n r by simp
qed

theorem failed_send_retried_witness:
  "SerialWriteFailed ''1'' \<in> set (snd (loop_body (tick_at 1000 ''07:00'' True False) armed_state)) \<and>
   last_command_sent_minute (fst (loop_body (tick_at 1000 ''07:00'' True False) armed_state)) = None \<and>
   filter is_write_attempt (snd (loop_body (tick_at 1006 ''07:00'' True True)
        (fst (loop_body (tick_at 1000 ''07:00'' True False) armed_state)))) = [SerialWrite ''1'']"
proof -
  have a: "loop_body (tick_at 1000 ''07:00'' True False) armed_state =
      (armed_state\<lparr>arduino := None\<rparr>, [SerialWriteFailed ''1'', SerialClose])"
    using armed_write_fails [of 1000 True 995] by (simp add: armed_state_last_attempt)
  have h: "SerialWriteFailed ''1'' \<in> set (snd (loop_body (tick_at 1000 ''07:00'' True False) armed_state))"
    using a by simp
  have m: "now_str (tick_at 1006 ''07:00'' True True) = now_str (tick_at 1000 ''07:00'' True False)"
    by (simp add: tick_at_def)
  have l: "last_serial_connect_attempt (fst (loop_body (tick_at 1000 ''07:00'' True False) armed_state)) = 995"
    using a by (simp add: armed_state_def)
  have r: "last_command_sent_minute (fst (reconnect_step (tick_at 1000 ''07:00'' True False) armed_state)) = None"
    by (simp add: reconnect_step_def connected_def armed_state_def)
  show ?thesis
    using failed_send_retried [OF h m] h l r
    by (simp add: tick_at_def SERIAL_RECONNECT_DELAY_SECONDS_def)
qed

subsection \<open>More than one command in a minute\<close>

text \<open>
  C4, as stated, fails in three ways. A schedule message handled between two iterations of
  the minute 07:00 clears the recorded minute, and the second iteration writes OFF after
  the first wrote ON. A write that fails is made again in the same minute once the link is
  back, so the ON command is issued twice. And in the scenario of the claim with the link
  down, three iterations reading 07:00 write nothing.
\<close>

theorem second_command_in_minute:
  "snd (loop_body (tick_at 1000 ''07:00'' True True) armed_state) = [SerialWrite ''1''] \<and>
   snd (loop_body (tick_at 1001 ''07:00'' True True)
         (on_message sample_loads strptime_HM payload_0800_0700
            (fst (loop_body (tick_at 1000 ''07:00'' True True) armed_state)))) = [SerialWrite ''0''] \<and>
   filter is_write_attempt
     (snd (run [tick_at 1000 ''07:00'' True False, tick_at 1006 ''07:00'' True True] armed_state))
       = [SerialWriteFailed ''1'', SerialWrite ''1''] \<and>
   snd (run [tick_at 1000 ''07:00'' True True, tick_at 1001 ''07:00'' True True,
             tick_at 1002 ''07:00'' True True] (armed_state\<lparr>arduino := None\<rparr>)) = []"
proof -
  let ?s1 = "armed_state\<lparr>last_known_state := Some ''1'', last_command_sent_minute := Some ''07:00''\<rparr>"
  have 1: "loop_body (tick_at 1000 ''07:00'' True True) armed_state = (?s1, [SerialWrite ''1''])"
    by (simp add: loop_body_def reconnect_step_def schedule_logic_def command_branch_def
        send_to_arduino_def connected_def armed_state_def tick_at_def)
  let ?s2 = "?s1\<lparr>current_schedule := \<lparr>on_time = Some ''08:00'', off_time = Some ''07:00''\<rparr>,
                  last_command_sent_minute := None\<rparr>"
  have 2: "on_message sample_loads strptime_HM payload_0800_0700 ?s1 = ?s2"
    using on_message_accepts [of sample_loads payload_0800_0700
        "[(''on_time'', JStr ''08:00''), (''off_time'', JStr ''07:00'')]" "''08:00''" "''07:00''"
        strptime_HM "(8, 0)" "(7, 0)" ?s1]
    by (simp add: sample_loads_simps strptime_samples)
  have 3: "snd (loop_body (tick_at 1001 ''07:00'' True True) ?s2) = [SerialWrite ''0'']"
    by (simp add: loop_body_def reconnect_step_def schedule_logic_def command_branch_def
        send_to_arduino_def connected_def armed_state_def tick_at_def)
  have a: "loop_body (tick_at 1000 ''07:00'' True False) armed_state =
      (armed_state\<lparr>arduino := None\<rparr>, [SerialWriteFailed ''1'', SerialClose])"
    using armed_write_fails [of 1000 True 995] by (simp add: armed_state_last_attempt)
  have "filter is_write_attempt (snd (loop_body (tick_at 1006 ''07:00'' True True)
      (armed_state\<lparr>arduino := None\<rparr>))) = [SerialWrite ''1'']"
    using retry_after_reconnect [of "armed_state\<lparr>arduino := None\<rparr>" "''1''"
        "tick_at 1006 ''07:00'' True True"]
    by (simp add: armed_state_def tick_at_def SERIAL_RECONNECT_DELAY_SECONDS_def)
  then have 4: "filter is_write_attempt
     (snd (run [tick_at 1000 ''07:00'' True False, tick_at 1006 ''07:00'' True True] armed_state))
       = [SerialWriteFailed ''1'', SerialWrite ''1'']"
    using a by (simp only: run_Cons_snd filter_append) simp
  have w: "\<And>n. n \<le> 1005 \<Longrightarrow> loop_body (tick_at n ''07:00'' True True) (armed_state\<lparr>arduino := None\<rparr>) =
      (armed_state\<lparr>arduino := None\<rparr>, [])"
    by (rule loop_body_waiting)
       (simp_all add: connected_def armed_state_def tick_at_def SERIAL_RECONNECT_DELAY_SECONDS_def)
  have 5: "snd (run [tick_at 1000 ''07:00'' True True, tick_at 1001 ''07:00'' True True,
             tick_at 1002 ''07:00'' True True] (armed_state\<lparr>arduino := None\<rparr>)) = []"
    by (simp add: w)
  show ?thesis using 1 2 3 4 5 by simp
qed

subsection \<open>Before any schedule has arrived\<close>

lemma loop_body_unset:
  assumes "current_schedule s = \<lparr>on_time = None, off_time = None\<rparr>"
  shows "filter is_write_attempt (snd (loop_body t s)) = []"
    and "last_command_sent_minute s = None \<Longrightarrow> last_command_sent_minute (fst (loop_body t s)) = None"
    and "last_known_state s = None \<Longrightarrow> last_known_state (fst (loop_body t s)) = None"
  using assms
  by (simp_all add: loop_body_def reconnect_step_def schedule_logic_def setup_serial_def Let_def
      split: prod.splits)

lemma unset_inv_init: "unset_inv (main_init first_open_ok t0)"
  by (simp add: unset_inv_def main_init_def setup_serial_def initial_globals_def Let_def)

lemma unset_inv_tick:
  assumes "unset_inv s"
  shows "unset_inv (fst (loop_body t s))"
proof (cases "on_time (current_schedule s)")
  case None
  then have u: "current_schedule s = \<lparr>on_time = None, off_time = None\<rparr>"
    and l: "last_command_sent_minute s = None" and k: "last_known_state s = None"
    using assms by (simp_all add: unset_inv_def)
  show ?thesis
    using loop_body_unset(2,3) [OF u] l k loop_body_schedule [of t s] u
    by (simp add: unset_inv_def)
next
  case (Some a)
  then show ?thesis
    using assms loop_body_schedule [of t s] by (simp add: unset_inv_def)
qed

lemma unset_inv_message:
  "unset_inv s \<Longrightarrow> unset_inv (on_message json_loads strp payload s)"
  using on_message_cases [of json_loads strp payload s] by (auto simp add: unset_inv_def)

lemma unset_inv_exec: "unset_inv s \<Longrightarrow> unset_inv (exec acts s)"
proof (induction acts arbitrary: s)
  case Nil
  then show ?case by simp
next
  case (Cons a acts)
  then show ?case
    by (cases a) (simp_all add: unset_inv_tick unset_inv_message)
qed

text \<open>
  C10. In every state the controller reaches from its start-up by loop iterations and bus
  messages, an iteration that finds both schedule fields unset attempts no serial write
  and leaves \<open>last_command_sent_minute\<close> and \<open>last_known_state\<close> as they were,
  whatever the clock reads and whether or not the iteration reconnects the serial link.
\<close>

theorem unset_schedule_idle:
  assumes "s = exec acts (main_init first_open_ok t0)"
    and "current_schedule s = \<lparr>on_time = None, off_time = None\<rparr>"
  shows "filter is_write_attempt (snd (loop_body t s)) = [] \<and>
         last_command_sent_minute (fst (loop_body t s)) = last_command_sent_minute s \<and>
         last_known_state (fst (loop_body t s)) = last_known_state s"
proof -
  have "unset_inv s" using assms(1) unset_inv_exec [OF unset_inv_init] by simp
  then have l: "last_command_sent_minute s = None" and k: "last_known_state s = None"
    using assms(2) by (simp_all add: unset_inv_def)
  show ?thesis using loop_body_unset [OF assms(2)] l k by simp
qed

theorem unset_schedule_idle_witness:
  "exec [Tick (tick_at 5 ''06:59'' True True), Message sample_loads strptime_HM payload_25_99]
      (main_init False 0)
     = initial_globals \<and>
   filter is_write_attempt (snd (loop_body (tick_at 1000 ''07:00'' True True) initial_globals)) = [] \<and>
   last_command_sent_minute (fst (loop_body (tick_at 1000 ''07:00'' True True) initial_globals)) = None \<and>
   last_known_state (fst (loop_body (tick_at 1000 ''07:00'' True True) initial_globals)) = None \<and>
   SerialOpen True \<in> set (snd (loop_body (tick_at 1000 ''07:00'' True True) initial_globals))"
proof -
  have i: "main_init False 0 = initial_globals"
    by (simp add: main_init_def setup_serial_def initial_globals_def Let_def)
  have w: "loop_body (tick_at 5 ''06:59'' True True) initial_globals = (initial_globals, [])"
    by (rule loop_body_waiting)
       (simp_all add: connected_def initial_globals_def tick_at_def SERIAL_RECONNECT_DELAY_SECONDS_def)
  have m: "on_message sample_loads strptime_HM payload_25_99 initial_globals = initial_globals"
    by (simp add: on_message_def sample_loads_simps strptime_samples)
  have e: "initial_globals =
      exec [Tick (tick_at 5 ''06:59'' True True), Message sample_loads strptime_HM payload_25_99]
      (main_init False 0)"
    by (simp add: i w m)
  have u: "current_schedule initial_globals = \<lparr>on_time = None, off_time = None\<rparr>"
    by (simp add: initial_globals_def)
  have n: "last_command_sent_minute initial_globals = None \<and> last_known_state initial_globals = None"
    by (simp add: initial_globals_def)
  have o: "SerialOpen True \<in> set (snd (loop_body (tick_at 1000 ''07:00'' True True) initial_globals))"
    by (simp add: loop_body_snd reconnect_step_down SERIAL_RECONNECT_DELAY_SECONDS_def
        initial_globals_def tick_at_def)
  show ?thesis
    using unset_schedule_idle [OF e u, of "tick_at 1000 ''07:00'' True True"] n o e by simp
qed

section \<open>The gateway's message handler\<close>

text \<open>
  C8. For every message that parses to an object with both keys, the handler calls
  \<^verbatim>\<open>publish_to_mqtt\<close> once, with the message exactly as received, and when the bus client
  is connected the client's \<^verbatim>\<open>publish\<close> is called once, on the fixed topic, with that same
  text. Nothing else reaches the bus.
\<close>

theorem relay_forwards_raw_payload:
  assumes "json_loads msg = Inr v" and "has_schedule_keys v"
  shows "filter is_publish (snd (handle_message json_loads outcome msg g)) =
      (if mqtt_client g \<noteq> None \<and> mqtt_connected g
       then [CallPublishToMqtt msg, ClientPublish MQTT_TOPIC msg]
       else [CallPublishToMqtt msg])"
  using assms
  by (cases outcome) (simp_all add: handle_message_def publish_to_mqtt_def)

theorem relay_forwards_raw_payload_witness:
  "filter is_publish (snd (handle_message sample_loads Published payload_0700_1900 gateway_up)) =
     [CallPublishToMqtt payload_0700_1900, ClientPublish MQTT_TOPIC payload_0700_1900]"
  using relay_forwards_raw_payload [of sample_loads payload_0700_1900
      "JDict [(''on_time'', JStr ''07:00''), (''off_time'', JStr ''19:00'')]" Published gateway_up]
  by (simp add: sample_loads_simps gateway_up_def)

text \<open>
  C9, as stated, fails: on a binary frame that is not decodable text \<^verbatim>\<open>json.loads\<close>
  raises \<^verbatim>\<open>UnicodeDecodeError\<close>, which is not a \<^verbatim>\<open>JSONDecodeError\<close>; the message is
  not a JSON object, and the reply is the generic internal-error reply, not an
  invalid-format one.
\<close>

theorem internal_error_reply:
  "sample_loads binary_frame = Inl UnicodeDecodeError \<and>
   handle_message sample_loads Published binary_frame gateway_up =
     (gateway_up, [WsSend \<lparr>status = ''error'', message = ''Internal server error.''\<rparr>]) \<and>
   \<not> invalid_format_reply \<lparr>status = ''error'', message = ''Internal server error.''\<rparr>"
  by (simp add: handle_message_def sample_loads_simps invalid_format_reply_def)

text \<open>
  C9, amended. For every message that does not parse to an object with both keys, the
  handler makes no publish call of any kind, leaves the gateway state as it was and sends
  exactly one reply, with status \<open>''error''\<close>. When the parser raised \<^verbatim>\<open>JSONDecodeError\<close>
  or returned a value that is not such an object, that reply is one of the two
  invalid-format replies; when the parser raised any other exception, it is the reply
  \<open>''Internal server error.''\<close>.
\<close>

theorem relay_rejects_malformed:
  "((\<forall>v. json_loads msg = Inr v \<longrightarrow> \<not> has_schedule_keys v) \<longrightarrow>
      (\<exists>m. handle_message json_loads outcome msg g = (g, [WsSend \<lparr>status = ''error'', message = m\<rparr>]))) \<and>
   (json_loads msg = Inl JSONDecodeError \<or> (\<exists>v. json_loads msg = Inr v \<and> \<not> has_schedule_keys v) \<longrightarrow>
      (\<exists>r. handle_message json_loads outcome msg g = (g, [WsSend r]) \<and> invalid_format_reply r)) \<and>
   ((\<exists>e. json_loads msg = Inl e \<and> e \<noteq> JSONDecodeError) \<longrightarrow>
      handle_message json_loads outcome msg g =
        (g, [WsSend \<lparr>status = ''error'', message = ''Internal server error.''\<rparr>]))"
  by (auto simp add: handle_message_def invalid_format_reply_def split: sum.splits py_exception.splits)

theorem relay_rejects_malformed_witness:
  "(\<exists>r. handle_message sample_loads Published payload_no_off gateway_up = (gateway_up, [WsSend r])
        \<and> invalid_format_reply r) \<and>
   (\<exists>r. handle_message sample_loads Published ''on at seven'' gateway_up = (gateway_up, [WsSend r])
        \<and> invalid_format_reply r) \<and>
   handle_message sample_loads NotPublished binary_frame gateway_up =
     (gateway_up, [WsSend \<lparr>status = ''error'', message = ''Internal server error.''\<rparr>])"
proof -
  have c: "sample_loads binary_frame = Inl UnicodeDecodeError \<and> UnicodeDecodeError \<noteq> JSONDecodeError"
    by (simp add: sample_loads_simps)
  have a: "sample_loads payload_no_off = Inr (JDict [(''on_time'', JStr ''07:00'')]) \<and>
           \<not> has_schedule_keys (JDict [(''on_time'', JStr ''07:00'')])"
    by (simp add: sample_loads_simps)
  have b: "sample_loads ''on at seven'' = Inl JSONDecodeError"
    by (simp add: sample_loads_def payload_0700_1900_def payload_9_5_def payload_25_99_def
        payload_0800_0700_def payload_no_off_def binary_frame_def)
  show ?thesis
    using relay_rejects_malformed [of sample_loads payload_no_off Published gateway_up]
      relay_rejects_malformed [of sample_loads "''on at seven''" Published gateway_up]
      relay_rejects_malformed [of sample_loads binary_frame NotPublished gateway_up] a b c
    by blast
qed

end
